theory Spec2Isabelle
  imports Main
begin

section \<open>The host: platform, filesystem observations, child processes\<close>

text \<open>
  The script \<^verbatim>\<open>init.py\<close> talks to its host through \<^verbatim>\<open>sys.platform\<close>,
  \<^verbatim>\<open>sys.executable\<close>, \<^verbatim>\<open>os.path.isdir\<close>, \<^verbatim>\<open>os.path.exists\<close> and
  \<^verbatim>\<open>subprocess.run\<close>. The world \<open>'w\<close> is left abstract: the two path tests
  observe it, and a child process answers with an outcome and an arbitrary new world.
\<close>

datatype proc =
    Exit int string string
  | NoSuchFile
  | Expired
  | Failure string

record 'w host =
  sys_platform :: string
  sys_executable :: string
  os_path_isdir :: "'w \<Rightarrow> string \<Rightarrow> bool"
  os_path_exists :: "'w \<Rightarrow> string \<Rightarrow> bool"
  popen :: "'w \<Rightarrow> string list \<Rightarrow> nat \<Rightarrow> proc \<times> 'w"

text \<open>
  \<open>Exit rc out err\<close> is a child that ran to its end with return code \<open>rc\<close>;
  \<open>NoSuchFile\<close> an executable that could not be found; \<open>Expired\<close> a child killed
  at the timeout handed to \<open>popen\<close>; \<open>Failure text\<close> any other exception of class
  \<^verbatim>\<open>Exception\<close>, with its \<^verbatim>\<open>str\<close>.
\<close>

datatype exn =
    CalledProcessError int "string option"
  | FileNotFoundError
  | TimeoutExpired
  | OtherException string

record run_kwargs =
  kw_check :: bool
  kw_text :: bool
  kw_capture_output :: bool
  kw_timeout :: nat

text \<open>
  \<^verbatim>\<open>subprocess.run(cmd, check=..., text=..., capture_output=..., timeout=...)\<close>:
  the library call. With \<^verbatim>\<open>check\<close> a non-zero return code is raised as
  \<^verbatim>\<open>CalledProcessError\<close>, whose \<^verbatim>\<open>stderr\<close> is the captured text, or
  \<^verbatim>\<open>None\<close> when nothing was captured.
\<close>

definition subprocess_run ::
  "'w host \<Rightarrow> string list \<Rightarrow> run_kwargs \<Rightarrow> 'w \<Rightarrow> (exn + int) \<times> 'w" where
  "subprocess_run h comando kw w =
     (case popen h w comando (kw_timeout kw) of
        (Exit rc out err, w') \<Rightarrow>
          (if kw_check kw \<and> rc \<noteq> 0
           then Inl (CalledProcessError rc (if kw_capture_output kw then Some err else None))
           else Inr rc, w')
      | (NoSuchFile, w') \<Rightarrow> (Inl FileNotFoundError, w')
      | (Expired, w') \<Rightarrow> (Inl TimeoutExpired, w')
      | (Failure t, w') \<Rightarrow> (Inl (OtherException t), w'))"

section \<open>Strings and paths\<close>

text \<open>
  \<^verbatim>\<open>str.isspace\<close> on the code points below 256: tab to carriage return,
  the four separators 0x1C to 0x1F, space, 0x85 and 0xA0.
\<close>

definition is_space :: "char \<Rightarrow> bool" where
  "is_space c = (of_char c \<in> set [9, 10, 11, 12, 13, 28, 29, 30, 31, 32, 133, (160::nat)])"

definition strip :: "string \<Rightarrow> string" where
  "strip s = rev (dropWhile is_space (rev (dropWhile is_space s)))"

fun str_join :: "string \<Rightarrow> string list \<Rightarrow> string" where
  "str_join sep [] = []"
| "str_join sep [x] = x"
| "str_join sep (x # y # ys) = x @ sep @ str_join sep (y # ys)"

text \<open>
  \<^verbatim>\<open>os.path\<close> is \<^verbatim>\<open>ntpath\<close> where \<^verbatim>\<open>sys.platform\<close> is \<^verbatim>\<open>"win32"\<close>
  and \<^verbatim>\<open>posixpath\<close> elsewhere. The two library functions below are written for
  paths without a drive letter, which is all the script builds.
\<close>

definition win32 :: "'w host \<Rightarrow> bool" where
  "win32 h = (sys_platform h = ''win32'')"

definition seps :: "'w host \<Rightarrow> char list" where
  "seps h = (if win32 h then [CHR 0x5C, CHR ''/''] else [CHR ''/''])"

definition join2 :: "'w host \<Rightarrow> string \<Rightarrow> string \<Rightarrow> string" where
  "join2 h path b =
     (if b \<noteq> [] \<and> hd b \<in> set (seps h) then b
      else if path = [] \<or> last path \<in> set (seps h) then path @ b
      else path @ [hd (seps h)] @ b)"

definition os_path_join :: "'w host \<Rightarrow> string \<Rightarrow> string list \<Rightarrow> string" where
  "os_path_join h a ps = foldl (join2 h) a ps"

definition os_path_dirname :: "'w host \<Rightarrow> string \<Rightarrow> string" where
  "os_path_dirname h p =
     (let head = rev (dropWhile (\<lambda>c. c \<notin> set (seps h)) (rev p))
      in if head \<noteq> [] \<and> \<not> list_all (\<lambda>c. c \<in> set (seps h)) head
         then rev (dropWhile (\<lambda>c. c \<in> set (seps h)) (rev head))
         else head)"

section \<open>Console lines and the trace\<close>

text \<open>
  Every \<^verbatim>\<open>print\<close> of the script is one constructor of \<open>line\<close>, carrying the
  values its f-string interpolates; the fixed message texts handed to the command runner
  are the constructors of \<open>msg\<close>.
\<close>

datatype msg =
    VenvCreated string
  | VenvNotCreated string
  | PipUpdated
  | PipNotUpdated
  | PipToolsInstalled
  | PipToolsNotInstalled
  | RequirementsCompiled
  | RequirementsNotCompiled
  | DependenciesInstalled
  | DependenciesNotInstalled

datatype line =
    Executing string
  | Success msg
  | Error msg
  | ErrorDetails string
  | CommandNotFound
  | AttemptedCommand string
  | TimedOut string
  | Unexpected string
  | DirAlreadyExists string
  | VenvSeemsValid
  | VenvSeemsInvalid
  | UpdatingPip
  | VenvMissingForPipTools string
  | EnsuringPipTools
  | AttemptingPipTools
  | StoppingRequirements
  | VenvMissing string
  | FallbackWarning
  | Step1Compiling
  | Step2Installing
  | CannotInstall
  | Rule string
  | MenuTitle
  | MenuCreate
  | MenuInstall
  | MenuExit
  | Prompt
  | Farewell
  | InvalidOption

datatype event = Print line | Run "string list" run_kwargs

record 'w state =
  world :: 'w
  trace :: "event list"

definition print_line :: "line \<Rightarrow> 'w state \<Rightarrow> 'w state" where
  "print_line l s = s\<lparr>trace := trace s @ [Print l]\<rparr>"

fun commands :: "event list \<Rightarrow> string list list" where
  "commands [] = []"
| "commands (Print l # es) = commands es"
| "commands (Run c kw # es) = c # commands es"

fun printed :: "event list \<Rightarrow> line list" where
  "printed [] = []"
| "printed (Print l # es) = l # printed es"
| "printed (Run c kw # es) = printed es"

section \<open>Virtual environment configuration\<close>

definition VENV_DIR :: string where
  "VENV_DIR = ''.venv''"

definition obtener_python_venv :: "'w host \<Rightarrow> string" where
  "obtener_python_venv h =
     (if sys_platform h = ''win32''
      then os_path_join h VENV_DIR [''Scripts'', ''python.exe'']
      else os_path_join h VENV_DIR [''bin'', ''python''])"

definition obtener_pip_venv :: "'w host \<Rightarrow> string list" where
  "obtener_pip_venv h = [obtener_python_venv h, ''-m'', ''pip'']"

section \<open>The command runner\<close>

definition truthy :: "string option \<Rightarrow> bool" where
  "truthy t = (case t of None \<Rightarrow> False | Some x \<Rightarrow> x \<noteq> [])"

definition ejecutar_comando ::
  "'w host \<Rightarrow> string list \<Rightarrow> msg \<Rightarrow> msg \<Rightarrow> 'w state \<Rightarrow> bool \<times> 'w state" where
  "ejecutar_comando h comando success_message error_message s =
     (let command_str = str_join '' '' comando;
          s = print_line (Executing command_str) s;
          kw = \<lparr>kw_check = True, kw_text = True, kw_capture_output = True, kw_timeout = 120\<rparr>;
          (r, w) = subprocess_run h comando kw (world s);
          s = s\<lparr>world := w, trace := trace s @ [Run comando kw]\<rparr>
      in case r of
           Inr rc \<Rightarrow> (True, print_line (Success success_message) s)
         | Inl (CalledProcessError rc stderr) \<Rightarrow>
             (let s = print_line (Error error_message) s;
                  s = (case stderr of
                         Some t \<Rightarrow> if truthy stderr then print_line (ErrorDetails (strip t)) s else s
                       | None \<Rightarrow> s)
              in (False, s))
         | Inl FileNotFoundError \<Rightarrow>
             (let s = print_line CommandNotFound s;
                  s = print_line (AttemptedCommand command_str) s
              in (False, s))
         | Inl TimeoutExpired \<Rightarrow> (False, print_line (TimedOut command_str) s)
         | Inl (OtherException t) \<Rightarrow> (False, print_line (Unexpected t) s))"

section \<open>Menu options\<close>

definition create_virtual_environment :: "'w host \<Rightarrow> 'w state \<Rightarrow> bool \<times> 'w state" where
  "create_virtual_environment h s =
     (if os_path_isdir h (world s) VENV_DIR then
        (let s = print_line (DirAlreadyExists VENV_DIR) s
         in if os_path_exists h (world s) (obtener_python_venv h)
            then (True, print_line VenvSeemsValid s)
            else (False, print_line VenvSeemsInvalid s))
      else
        (let command = [sys_executable h, ''-m'', ''venv'', VENV_DIR];
             success_msg = VenvCreated VENV_DIR;
             error_msg = VenvNotCreated VENV_DIR;
             (ok, s) = ejecutar_comando h command success_msg error_msg s
         in if ok then
              (let s = print_line UpdatingPip s;
                   update_command =
                     obtener_pip_venv h @ [''install'', ''--upgrade'', ''pip'', ''setuptools''];
                   (updated, s) = ejecutar_comando h update_command PipUpdated PipNotUpdated s
               in (True, s))
            else (False, s)))"

definition verify_and_install_pip_compile :: "'w host \<Rightarrow> 'w state \<Rightarrow> bool \<times> 'w state" where
  "verify_and_install_pip_compile h s =
     (if \<not> os_path_isdir h (world s) VENV_DIR
      then (False, print_line (VenvMissingForPipTools VENV_DIR) s)
      else
        (let s = print_line EnsuringPipTools s;
             install_command = obtener_pip_venv h @ [''install'', ''pip-tools''];
             s = print_line AttemptingPipTools s;
             (ok, s) = ejecutar_comando h install_command PipToolsInstalled PipToolsNotInstalled s
         in if ok then (True, s)
            else (False, print_line StoppingRequirements s)))"

text \<open>
  The local variables \<^verbatim>\<open>pip_compile_venv\<close> (lines 123 to 125) and
  \<^verbatim>\<open>compile_command\<close> (lines 128 to 132) of \<^verbatim>\<open>install_requirements\<close>; the
  second depends on the world in which the path is tested. The warning printed in the
  fallback branch is part of \<open>install_requirements\<close> below.
\<close>

definition pip_compile_venv :: "'w host \<Rightarrow> string" where
  "pip_compile_venv h =
     (let python_venv = obtener_python_venv h;
          p = os_path_join h (os_path_dirname h python_venv) [''pip-compile'']
      in if sys_platform h = ''win32'' then p @ ''.exe'' else p)"

definition compile_command :: "'w host \<Rightarrow> 'w \<Rightarrow> string list" where
  "compile_command h w =
     (if \<not> os_path_exists h w (pip_compile_venv h)
      then [obtener_python_venv h, ''-m'', ''piptools'', ''compile'', ''requirements.in'']
      else [pip_compile_venv h, ''requirements.in''])"

definition install_requirements :: "'w host \<Rightarrow> 'w state \<Rightarrow> 'w state" where
  "install_requirements h s =
     (if \<not> os_path_isdir h (world s) VENV_DIR
      then print_line (VenvMissing VENV_DIR) s
      else
        (let (ok, s) = verify_and_install_pip_compile h s
         in if \<not> ok then s
            else
              (let s = (if \<not> os_path_exists h (world s) (pip_compile_venv h)
                        then print_line FallbackWarning s else s);
                   compile_cmd = compile_command h (world s);
                   install_command = obtener_pip_venv h @ [''install'', ''-r'', ''requirements.txt''];
                   s = print_line Step1Compiling s;
                   (compiled, s) =
                     ejecutar_comando h compile_cmd RequirementsCompiled RequirementsNotCompiled s
               in if \<not> compiled then s
                  else
                    (let s = print_line Step2Installing s
                     in if os_path_exists h (world s) ''requirements.txt''
                        then snd (ejecutar_comando h install_command
                                    DependenciesInstalled DependenciesNotInstalled s)
                        else print_line CannotInstall s))))"

section \<open>The menu\<close>


definition banner :: "'w state \<Rightarrow> 'w state" where
  "banner s =
     (let s = print_line (Rule (CHR 0x0A # replicate 50 (CHR ''=''))) s;
          s = print_line MenuTitle s;
          s = print_line (Rule (replicate 50 (CHR ''=''))) s;
          s = print_line MenuCreate s;
          s = print_line MenuInstall s;
          s = print_line MenuExit s
      in print_line (Rule (replicate 50 (CHR ''-''))) s)"


section \<open>Observations and sample hosts\<close>

text \<open>A child process succeeded when it ran to its end with return code zero.\<close>

definition succeeded :: "proc \<Rightarrow> bool" where
  "succeeded p =
     (case p of
        Exit rc out err \<Rightarrow> rc = 0
      | NoSuchFile \<Rightarrow> False
      | Expired \<Rightarrow> False
      | Failure t \<Rightarrow> False)"

text \<open>
  Concrete hosts on which the flows can be run: the world is an association list from
  paths to a flag (\<open>True\<close> for a directory), on a POSIX platform. \<open>well_behaved\<close>
  creates the environment on request, runs whatever executable exists and compiles
  \<^verbatim>\<open>requirements.in\<close> when it is there; \<open>quiet_tools\<close> run every existing
  executable with return code zero and write nothing.
\<close>

type_synonym files = "(string \<times> bool) list"

definition posix_host :: "(files \<Rightarrow> string list \<Rightarrow> proc \<times> files) \<Rightarrow> files host" where
  "posix_host tools =
     \<lparr>sys_platform = ''linux'', sys_executable = ''/usr/bin/python3'',
      os_path_isdir = (\<lambda>w p. map_of w p = Some True),
      os_path_exists = (\<lambda>w p. map_of w p \<noteq> None),
      popen = (\<lambda>w c t. tools w c)\<rparr>"

definition well_behaved :: "files \<Rightarrow> string list \<Rightarrow> proc \<times> files" where
  "well_behaved w c =
     (if c = [''/usr/bin/python3'', ''-m'', ''venv'', ''.venv'']
      then (Exit 0 [] [],
            [(''.venv'', True), (''.venv/bin'', True), (''.venv/bin/python'', False)] @ w)
      else if c \<noteq> [] \<and> map_of w (hd c) = Some False then
        (if last c = ''requirements.in'' then
           (if map_of w ''requirements.in'' = Some False
            then (Exit 0 [] [], (''requirements.txt'', False) # w)
            else (Exit 2 [] ''requirements.in not found'', w))
         else (Exit 0 [] [], w))
      else (NoSuchFile, w))"

definition quiet_tools :: "files \<Rightarrow> string list \<Rightarrow> proc \<times> files" where
  "quiet_tools w c =
     (if c \<noteq> [] \<and> map_of w (hd c) = Some False then (Exit 0 [] [], w) else (NoSuchFile, w))"

text \<open>
  Sample states: \<open>fresh w\<close> starts on the world \<open>w\<close> with nothing printed yet;
  \<open>with_venv\<close> is a world holding a complete environment.
\<close>

definition fresh :: "files \<Rightarrow> files state" where
  "fresh w = \<lparr>world = w, trace = []\<rparr>"

definition with_venv :: files where
  "with_venv = [(''.venv'', True), (''.venv/bin'', True), (''.venv/bin/python'', False)]"

section \<open>Basic facts\<close>

lemma commands_append: "commands (xs @ ys) = commands xs @ commands ys"
  by (induction xs rule: commands.induct) simp_all

lemma printed_append: "printed (xs @ ys) = printed xs @ printed ys"
  by (induction xs rule: printed.induct) simp_all

lemma commands_map_Print: "commands (map Print ls) = []"
  by (induction ls) simp_all

lemma printed_map_Print: "printed (map Print ls) = ls"
  by (induction ls) simp_all

lemma print_line_simps [simp]:
  "world (print_line l s) = world s"
  "commands (trace (print_line l s)) = commands (trace s)"
  "printed (trace (print_line l s)) = printed (trace s) @ [l]"
  by (simp_all add: print_line_def commands_append printed_append)

section \<open>The command runner\<close>

lemma ejecutar_comando_eq:
  assumes "popen h (world s) comando 120 = (p, w')"
  shows "ejecutar_comando h comando ok err s =
     (succeeded p,
      s\<lparr>world := w',
        trace := trace s @
          [Print (Executing (str_join '' '' comando)),
           Run comando \<lparr>kw_check = True, kw_text = True, kw_capture_output = True, kw_timeout = 120\<rparr>] @
          map Print
            (case p of
               Exit rc out e \<Rightarrow>
                 if rc = 0 then [Success ok]
                 else Error err # (if e \<noteq> [] then [ErrorDetails (strip e)] else [])
             | NoSuchFile \<Rightarrow> [CommandNotFound, AttemptedCommand (str_join '' '' comando)]
             | Expired \<Rightarrow> [TimedOut (str_join '' '' comando)]
             | Failure t \<Rightarrow> [Unexpected t])\<rparr>)"
  using assms
  by (cases p)
     (simp_all add: ejecutar_comando_def subprocess_run_def print_line_def truthy_def Let_def
        succeeded_def)

lemma ejecutar_fst:
  "fst (ejecutar_comando h c ok err s) = succeeded (fst (popen h (world s) c 120))"
  by (cases "popen h (world s) c 120") (simp add: ejecutar_comando_eq)

lemma ejecutar_world:
  "world (snd (ejecutar_comando h c ok err s)) = snd (popen h (world s) c 120)"
  by (cases "popen h (world s) c 120") (simp add: ejecutar_comando_eq)

lemma ejecutar_commands:
  "commands (trace (snd (ejecutar_comando h c ok err s))) = commands (trace s) @ [c]"
  by (cases "popen h (world s) c 120")
     (simp add: ejecutar_comando_eq commands_append commands_map_Print)

lemmas ejecutar_simps = ejecutar_fst ejecutar_world ejecutar_commands



section \<open>Paths inside the environment\<close>

lemma python_venv_posix:
  "sys_platform h \<noteq> ''win32'' \<Longrightarrow> obtener_python_venv h = ''.venv/bin/python''"
  by (simp add: obtener_python_venv_def os_path_join_def join2_def seps_def win32_def VENV_DIR_def)

lemma python_venv_win32:
  "sys_platform h = ''win32'' \<Longrightarrow>
     obtener_python_venv h = ''.venv'' @ [CHR 0x5C] @ ''Scripts'' @ [CHR 0x5C] @ ''python.exe''"
  by (simp add: obtener_python_venv_def os_path_join_def join2_def seps_def win32_def VENV_DIR_def)

lemma pip_compile_venv_posix:
  "sys_platform h \<noteq> ''win32'' \<Longrightarrow> pip_compile_venv h = ''.venv/bin/pip-compile''"
  by (simp add: pip_compile_venv_def python_venv_posix os_path_dirname_def os_path_join_def
        join2_def seps_def win32_def Let_def)

lemma pip_compile_venv_win32:
  "sys_platform h = ''win32'' \<Longrightarrow>
     pip_compile_venv h = ''.venv'' @ [CHR 0x5C] @ ''Scripts'' @ [CHR 0x5C] @ ''pip-compile.exe''"
  by (simp add: pip_compile_venv_def python_venv_win32 os_path_dirname_def os_path_join_def
        join2_def seps_def win32_def Let_def)

lemma dirname_python_venv:
  "os_path_dirname h (obtener_python_venv h) =
     os_path_join h VENV_DIR [if sys_platform h = ''win32'' then ''Scripts'' else ''bin'']"
  by (simp add: python_venv_posix python_venv_win32 os_path_dirname_def os_path_join_def
        join2_def seps_def win32_def Let_def VENV_DIR_def)

lemma pip_compile_venv_join:
  "pip_compile_venv h =
     os_path_join h (os_path_dirname h (obtener_python_venv h))
       [''pip-compile'' @ (if sys_platform h = ''win32'' then ''.exe'' else [])]"
  by (simp add: pip_compile_venv_def Let_def dirname_python_venv os_path_join_def join2_def
        seps_def win32_def VENV_DIR_def)

lemma python_venv_inside: "take (length VENV_DIR) (obtener_python_venv h) = VENV_DIR"
  by (cases "sys_platform h = ''win32''") (simp_all add: python_venv_posix python_venv_win32 VENV_DIR_def)

lemma pip_compile_venv_inside: "take (length VENV_DIR) (pip_compile_venv h) = VENV_DIR"
  by (cases "sys_platform h = ''win32''") (simp_all add: pip_compile_venv_posix pip_compile_venv_win32 VENV_DIR_def)

section \<open>What the two flows run\<close>

lemma ejecutar_comando_unfold:
  "ejecutar_comando h comando ok err s =
     (succeeded (fst (popen h (world s) comando 120)),
      s\<lparr>world := snd (popen h (world s) comando 120),
        trace := trace s @
          [Print (Executing (str_join '' '' comando)),
           Run comando \<lparr>kw_check = True, kw_text = True, kw_capture_output = True, kw_timeout = 120\<rparr>] @
          map Print
            (case fst (popen h (world s) comando 120) of
               Exit rc out e \<Rightarrow>
                 if rc = 0 then [Success ok]
                 else Error err # (if e \<noteq> [] then [ErrorDetails (strip e)] else [])
             | NoSuchFile \<Rightarrow> [CommandNotFound, AttemptedCommand (str_join '' '' comando)]
             | Expired \<Rightarrow> [TimedOut (str_join '' '' comando)]
             | Failure t \<Rightarrow> [Unexpected t])\<rparr>)"
  by (cases "popen h (world s) comando 120") (simp add: ejecutar_comando_eq)

lemma install_commands:
  assumes "popen h (world s) (obtener_pip_venv h @ [''install'', ''pip-tools'']) 120 = (p1, w1)"
    and "popen h w1 (compile_command h w1) 120 = (p2, w2)"
  shows "commands (trace (install_requirements h s)) = commands (trace s) @
     (if \<not> os_path_isdir h (world s) VENV_DIR then []
      else (obtener_pip_venv h @ [''install'', ''pip-tools'']) #
        (if \<not> succeeded p1 then []
         else compile_command h w1 #
           (if succeeded p2 \<and> os_path_exists h w2 ''requirements.txt''
            then [obtener_pip_venv h @ [''install'', ''-r'', ''requirements.txt'']] else [])))"
  using assms
  by (simp add: install_requirements_def verify_and_install_pip_compile_def Let_def split_beta ejecutar_simps)

lemma install_world:
  assumes "popen h (world s) (obtener_pip_venv h @ [''install'', ''pip-tools'']) 120 = (p1, w1)"
    and "popen h w1 (compile_command h w1) 120 = (p2, w2)"
    and "popen h w2 (obtener_pip_venv h @ [''install'', ''-r'', ''requirements.txt'']) 120 = (p3, w3)"
  shows "world (install_requirements h s) =
     (if \<not> os_path_isdir h (world s) VENV_DIR then world s
      else if \<not> succeeded p1 then w1
      else if succeeded p2 \<and> os_path_exists h w2 ''requirements.txt'' then w3 else w2)"
  using assms
  by (simp add: install_requirements_def verify_and_install_pip_compile_def Let_def split_beta ejecutar_simps)

lemma create_commands:
  assumes "popen h (world s) [sys_executable h, ''-m'', ''venv'', VENV_DIR] 120 = (p, w1)"
  shows "commands (trace (snd (create_virtual_environment h s))) = commands (trace s) @
     (if os_path_isdir h (world s) VENV_DIR then []
      else [sys_executable h, ''-m'', ''venv'', VENV_DIR] #
        (if succeeded p
         then [obtener_pip_venv h @ [''install'', ''--upgrade'', ''pip'', ''setuptools'']]
         else []))"
  using assms
  by (simp add: create_virtual_environment_def Let_def split_beta ejecutar_simps)

lemma create_fst:
  assumes "popen h (world s) [sys_executable h, ''-m'', ''venv'', VENV_DIR] 120 = (p, w1)"
  shows "fst (create_virtual_environment h s) =
     (if os_path_isdir h (world s) VENV_DIR
      then os_path_exists h (world s) (obtener_python_venv h)
      else succeeded p)"
  using assms
  by (simp add: create_virtual_environment_def Let_def split_beta ejecutar_simps)

lemma create_world:
  assumes "popen h (world s) [sys_executable h, ''-m'', ''venv'', VENV_DIR] 120 = (p, w1)"
    and "popen h w1 (obtener_pip_venv h @ [''install'', ''--upgrade'', ''pip'', ''setuptools'']) 120 = (q, w2)"
  shows "world (snd (create_virtual_environment h s)) =
     (if os_path_isdir h (world s) VENV_DIR then world s
      else if succeeded p then w2 else w1)"
  using assms
  by (simp add: create_virtual_environment_def Let_def split_beta ejecutar_simps)

lemma fallback_warning_printed:
  assumes "os_path_isdir h (world s) VENV_DIR"
    and "popen h (world s) (obtener_pip_venv h @ [''install'', ''pip-tools'']) 120 = (p1, w1)"
    and "succeeded p1"
  shows "(Print FallbackWarning \<in> set (drop (length (trace s)) (trace (install_requirements h s)))) =
           (\<not> os_path_exists h w1 (pip_compile_venv h))"
  using assms
  by (auto simp add: install_requirements_def verify_and_install_pip_compile_def Let_def
        ejecutar_comando_unfold print_line_def split: proc.splits if_splits)

section \<open>Environment creation\<close>

text \<open>
  C3. When the environment directory already exists the creation flow runs no child
  process and leaves the world as it is: with the interpreter present it prints the
  "valid" line and returns \<open>True\<close>, with the interpreter absent it prints the
  "invalid, delete and try again" line and returns \<open>False\<close>. In particular a second
  call, made on the state a successful first call left (the directory there and the
  interpreter still present), returns \<open>True\<close> and runs nothing.
\<close>

theorem create_existing_directory:
  assumes "os_path_isdir h (world s) VENV_DIR"
  shows "create_virtual_environment h s =
           (if os_path_exists h (world s) (obtener_python_venv h)
            then (True, s\<lparr>trace := trace s @ [Print (DirAlreadyExists VENV_DIR), Print VenvSeemsValid]\<rparr>)
            else (False, s\<lparr>trace := trace s @ [Print (DirAlreadyExists VENV_DIR), Print VenvSeemsInvalid]\<rparr>))
       \<and> commands (trace (snd (create_virtual_environment h s))) = commands (trace s)
       \<and> world (snd (create_virtual_environment h s)) = world s
       \<and> (s = snd (create_virtual_environment h s0) \<and> fst (create_virtual_environment h s0)
            \<and> os_path_exists h (world s) (obtener_python_venv h) \<longrightarrow>
          fst (create_virtual_environment h s)
            \<and> commands (trace (snd (create_virtual_environment h s))) =
                commands (trace (snd (create_virtual_environment h s0))))"
proof -
  have eq: "create_virtual_environment h s =
           (if os_path_exists h (world s) (obtener_python_venv h)
            then (True, s\<lparr>trace := trace s @ [Print (DirAlreadyExists VENV_DIR), Print VenvSeemsValid]\<rparr>)
            else (False, s\<lparr>trace := trace s @ [Print (DirAlreadyExists VENV_DIR), Print VenvSeemsInvalid]\<rparr>))"
    using assms by (simp add: create_virtual_environment_def Let_def print_line_def)
  have cs: "commands (trace (snd (create_virtual_environment h s))) = commands (trace s)"
    by (simp add: eq commands_append)
  have w: "world (snd (create_virtual_environment h s)) = world s"
    by (simp add: eq)
  have "fst (create_virtual_environment h s)
          \<and> commands (trace (snd (create_virtual_environment h s))) =
              commands (trace (snd (create_virtual_environment h s0)))"
    if "s = snd (create_virtual_environment h s0)"
      and "os_path_exists h (world s) (obtener_python_venv h)"
  proof
    show "fst (create_virtual_environment h s)" using that(2) by (simp add: eq)
    show "commands (trace (snd (create_virtual_environment h s))) =
              commands (trace (snd (create_virtual_environment h s0)))"
      using cs that(1) by simp
  qed
  with eq cs w show ?thesis by blast
qed

theorem create_existing_directory_witness:
  "os_path_isdir (posix_host well_behaved)
     (world (snd (create_virtual_environment (posix_host well_behaved) (fresh [])))) VENV_DIR
   \<and> fst (create_virtual_environment (posix_host well_behaved) (fresh []))
   \<and> fst (create_virtual_environment (posix_host well_behaved)
            (snd (create_virtual_environment (posix_host well_behaved) (fresh []))))
   \<and> commands (trace (snd (create_virtual_environment (posix_host well_behaved)
            (snd (create_virtual_environment (posix_host well_behaved) (fresh [])))))) =
       commands (trace (snd (create_virtual_environment (posix_host well_behaved) (fresh []))))"
proof -
  let ?s1 = "snd (create_virtual_environment (posix_host well_behaved) (fresh []))"
  have d: "os_path_isdir (posix_host well_behaved) (world ?s1) VENV_DIR"
    by code_simp
  have f: "fst (create_virtual_environment (posix_host well_behaved) (fresh []))"
    by code_simp
  have e: "os_path_exists (posix_host well_behaved) (world ?s1)
             (obtener_python_venv (posix_host well_behaved))"
    by code_simp
  from create_existing_directory [OF d, of "fresh []"] d f e
  show ?thesis by blast
qed

text \<open>
  C7. When the environment directory does not exist, the creation command
  \<^verbatim>\<open>[sys.executable, -m, venv, .venv]\<close> is run. If it succeeds, the upgrade of pip
  and setuptools through the environment's interpreter is run next and the flow returns
  \<open>True\<close> whatever the outcome \<open>q\<close> of the upgrade; if it fails, nothing else is run
  and the flow returns \<open>False\<close>.
\<close>

theorem create_then_upgrade:
  assumes "\<not> os_path_isdir h (world s) VENV_DIR"
    and "popen h (world s) [sys_executable h, ''-m'', ''venv'', VENV_DIR] 120 = (p, w1)"
    and "popen h w1 (obtener_pip_venv h @ [''install'', ''--upgrade'', ''pip'', ''setuptools'']) 120 = (q, w2)"
  shows "(succeeded p \<longrightarrow>
            fst (create_virtual_environment h s) = True
          \<and> commands (trace (snd (create_virtual_environment h s))) =
              commands (trace s) @
              [[sys_executable h, ''-m'', ''venv'', VENV_DIR],
               [obtener_python_venv h, ''-m'', ''pip'', ''install'', ''--upgrade'', ''pip'', ''setuptools'']]
          \<and> world (snd (create_virtual_environment h s)) = w2)
       \<and> (\<not> succeeded p \<longrightarrow>
            fst (create_virtual_environment h s) = False
          \<and> commands (trace (snd (create_virtual_environment h s))) =
              commands (trace s) @ [[sys_executable h, ''-m'', ''venv'', VENV_DIR]]
          \<and> world (snd (create_virtual_environment h s)) = w1)"
  using assms
  by (simp add: create_commands create_fst create_world obtener_pip_venv_def)

theorem create_then_upgrade_witness:
  "\<not> os_path_isdir (posix_host well_behaved) (world (fresh [])) VENV_DIR
   \<and> popen (posix_host well_behaved) (world (fresh []))
       [sys_executable (posix_host well_behaved), ''-m'', ''venv'', VENV_DIR] 120 =
       (Exit 0 [] [], with_venv)
   \<and> popen (posix_host well_behaved) with_venv
       (obtener_pip_venv (posix_host well_behaved) @ [''install'', ''--upgrade'', ''pip'', ''setuptools''])
       120 = (Exit 0 [] [], with_venv)
   \<and> succeeded (Exit 0 [] [])
   \<and> fst (create_virtual_environment (posix_host well_behaved) (fresh [])) = True
   \<and> world (snd (create_virtual_environment (posix_host well_behaved) (fresh []))) = with_venv"
proof -
  have a: "\<not> os_path_isdir (posix_host well_behaved) (world (fresh [])) VENV_DIR"
    by code_simp
  have b: "popen (posix_host well_behaved) (world (fresh []))
       [sys_executable (posix_host well_behaved), ''-m'', ''venv'', VENV_DIR] 120 =
       (Exit 0 [] [], with_venv)"
    by code_simp
  have c: "popen (posix_host well_behaved) with_venv
       (obtener_pip_venv (posix_host well_behaved) @ [''install'', ''--upgrade'', ''pip'', ''setuptools''])
       120 = (Exit 0 [] [], with_venv)"
    by code_simp
  have d: "succeeded (Exit 0 [] [])"
    by (simp add: succeeded_def)
  from create_then_upgrade [OF a b c] a b c d
  show ?thesis by blast
qed

section \<open>Dependency installation\<close>

text \<open>
  C4. When the environment directory does not exist, the installation flow prints the
  guidance line and returns: the only new event is that line, no command is run and the
  world is unchanged.
\<close>

theorem install_requirements_without_venv:
  assumes "\<not> os_path_isdir h (world s) VENV_DIR"
  shows "install_requirements h s = s\<lparr>trace := trace s @ [Print (VenvMissing VENV_DIR)]\<rparr>
       \<and> commands (trace (install_requirements h s)) = commands (trace s)
       \<and> world (install_requirements h s) = world s"
  using assms
  by (simp add: install_requirements_def print_line_def commands_append)

theorem install_requirements_without_venv_witness:
  "\<not> os_path_isdir (posix_host well_behaved) (world (fresh [])) VENV_DIR
   \<and> install_requirements (posix_host well_behaved) (fresh []) =
       (fresh [])\<lparr>trace := trace (fresh []) @ [Print (VenvMissing VENV_DIR)]\<rparr>"
proof -
  have a: "\<not> os_path_isdir (posix_host well_behaved) (world (fresh [])) VENV_DIR"
    by code_simp
  from install_requirements_without_venv [OF a] a
  show ?thesis by blast
qed

text \<open>
  C2, as the specification states it: whenever the installation flow runs a child
  process, the interpreter executable is present in the environment directory. The flow
  only tests that the directory exists: on a host whose \<^verbatim>\<open>.venv\<close> is an empty
  directory it goes past both checks and hands the pip-tools installation to the command
  runner, with the interpreter absent.
\<close>

theorem install_without_interpreter_counterexample:
  "os_path_isdir (posix_host well_behaved) (world (fresh [(''.venv'', True)])) VENV_DIR
   \<and> \<not> os_path_exists (posix_host well_behaved) (world (fresh [(''.venv'', True)]))
         (obtener_python_venv (posix_host well_behaved))
   \<and> commands (trace (install_requirements (posix_host well_behaved) (fresh [(''.venv'', True)]))) =
       [[''.venv/bin/python'', ''-m'', ''pip'', ''install'', ''pip-tools'']]"
  by code_simp

text \<open>
  C2, amended. Whenever the installation flow runs any command, the environment
  directory existed when the flow started; the first command is the installation of
  pip-tools through the environment's interpreter, and a further command is run only if
  that first one ran to its end with return code zero.
\<close>

theorem install_guard:
  assumes "commands (trace (install_requirements h s)) \<noteq> commands (trace s)"
  shows "os_path_isdir h (world s) VENV_DIR
       \<and> (\<exists>rest. commands (trace (install_requirements h s)) =
             commands (trace s) @ [obtener_python_venv h, ''-m'', ''pip'', ''install'', ''pip-tools''] # rest
           \<and> (rest \<noteq> [] \<longrightarrow>
                succeeded (fst (popen h (world s)
                  [obtener_python_venv h, ''-m'', ''pip'', ''install'', ''pip-tools''] 120))))"
proof -
  obtain p1 w1 where a: "popen h (world s) (obtener_pip_venv h @ [''install'', ''pip-tools'']) 120 = (p1, w1)"
    by (cases "popen h (world s) (obtener_pip_venv h @ [''install'', ''pip-tools'']) 120")
  obtain p2 w2 where b: "popen h w1 (compile_command h w1) 120 = (p2, w2)"
    by (cases "popen h w1 (compile_command h w1) 120")
  from a have a': "popen h (world s) [obtener_python_venv h, ''-m'', ''pip'', ''install'', ''pip-tools''] 120 = (p1, w1)"
    by (simp add: obtener_pip_venv_def)
  from assms show ?thesis
    unfolding install_commands [OF a b] a'
    by (simp add: obtener_pip_venv_def split: if_splits)
qed

theorem install_guard_witness:
  "commands (trace (install_requirements (posix_host well_behaved) (fresh [(''.venv'', True)]))) \<noteq>
     commands (trace (fresh [(''.venv'', True)]))
   \<and> os_path_isdir (posix_host well_behaved) (world (fresh [(''.venv'', True)])) VENV_DIR"
proof -
  have h: "commands (trace (install_requirements (posix_host well_behaved) (fresh [(''.venv'', True)]))) \<noteq>
     commands (trace (fresh [(''.venv'', True)]))"
    by code_simp
  from install_guard [OF h] h show ?thesis by blast
qed

text \<open>
  C5. When the compilation command does not succeed (the command runner returns
  \<open>False\<close> for it), the flow has run the pip-tools installation and the compilation
  and nothing else: the installation from \<^verbatim>\<open>requirements.txt\<close> is not among the
  commands, and the world is the one the compiler left.
\<close>

theorem compile_failure_stops:
  assumes "os_path_isdir h (world s) VENV_DIR"
    and "popen h (world s) [obtener_python_venv h, ''-m'', ''pip'', ''install'', ''pip-tools''] 120 = (p1, w1)"
    and "succeeded p1"
    and "popen h w1 (compile_command h w1) 120 = (p2, w2)"
    and "\<not> succeeded p2"
  shows "commands (trace (install_requirements h s)) =
           commands (trace s) @
           [[obtener_python_venv h, ''-m'', ''pip'', ''install'', ''pip-tools''], compile_command h w1]
       \<and> [obtener_python_venv h, ''-m'', ''pip'', ''install'', ''-r'', ''requirements.txt''] \<notin>
           set [[obtener_python_venv h, ''-m'', ''pip'', ''install'', ''pip-tools''], compile_command h w1]
       \<and> world (install_requirements h s) = w2"
proof -
  from assms(2) have a: "popen h (world s) (obtener_pip_venv h @ [''install'', ''pip-tools'']) 120 = (p1, w1)"
    by (simp add: obtener_pip_venv_def)
  obtain p3 w3 where c:
    "popen h w2 (obtener_pip_venv h @ [''install'', ''-r'', ''requirements.txt'']) 120 = (p3, w3)"
    by (cases "popen h w2 (obtener_pip_venv h @ [''install'', ''-r'', ''requirements.txt'']) 120")
  show ?thesis
    using assms(1,3,5)
    by (simp add: install_commands [OF a assms(4)] install_world [OF a assms(4) c]
          obtener_pip_venv_def compile_command_def)
qed

theorem compile_failure_stops_witness:
  "os_path_isdir (posix_host well_behaved) (world (fresh with_venv)) VENV_DIR
   \<and> popen (posix_host well_behaved) (world (fresh with_venv))
       [obtener_python_venv (posix_host well_behaved), ''-m'', ''pip'', ''install'', ''pip-tools''] 120 =
       (Exit 0 [] [], with_venv)
   \<and> succeeded (Exit 0 [] [])
   \<and> popen (posix_host well_behaved) with_venv
       (compile_command (posix_host well_behaved) with_venv) 120 =
       (Exit 2 [] ''requirements.in not found'', with_venv)
   \<and> \<not> succeeded (Exit 2 [] ''requirements.in not found'')
   \<and> commands (trace (install_requirements (posix_host well_behaved) (fresh with_venv))) =
       commands (trace (fresh with_venv)) @
       [[obtener_python_venv (posix_host well_behaved), ''-m'', ''pip'', ''install'', ''pip-tools''],
        compile_command (posix_host well_behaved) with_venv]"
proof -
  have a: "os_path_isdir (posix_host well_behaved) (world (fresh with_venv)) VENV_DIR"
    by code_simp
  have b: "popen (posix_host well_behaved) (world (fresh with_venv))
       [obtener_python_venv (posix_host well_behaved), ''-m'', ''pip'', ''install'', ''pip-tools''] 120 =
       (Exit 0 [] [], with_venv)"
    by code_simp
  have c: "succeeded (Exit 0 [] [])"
    by (simp add: succeeded_def)
  have d: "popen (posix_host well_behaved) with_venv
       (compile_command (posix_host well_behaved) with_venv) 120 =
       (Exit 2 [] ''requirements.in not found'', with_venv)"
    by code_simp
  have e: "\<not> succeeded (Exit 2 [] ''requirements.in not found'')"
    by (simp add: succeeded_def)
  from compile_failure_stops [OF a b c d e] a b c d e
  show ?thesis by blast
qed

text \<open>
  C6. When the compilation command succeeds: if \<^verbatim>\<open>requirements.txt\<close> exists in
  the world the compiler left, the installation from it through the environment's
  interpreter is run as the third command; if it does not exist, no further command is
  run, the world stays as the compiler left it and the last event of the flow is the
  line reporting that the file was not generated.
\<close>

theorem lock_file_gate:
  assumes "os_path_isdir h (world s) VENV_DIR"
    and "popen h (world s) [obtener_python_venv h, ''-m'', ''pip'', ''install'', ''pip-tools''] 120 = (p1, w1)"
    and "succeeded p1"
    and "popen h w1 (compile_command h w1) 120 = (p2, w2)"
    and "succeeded p2"
  shows "(os_path_exists h w2 ''requirements.txt'' \<longrightarrow>
            commands (trace (install_requirements h s)) =
              commands (trace s) @
              [[obtener_python_venv h, ''-m'', ''pip'', ''install'', ''pip-tools''],
               compile_command h w1,
               [obtener_python_venv h, ''-m'', ''pip'', ''install'', ''-r'', ''requirements.txt'']])
       \<and> (\<not> os_path_exists h w2 ''requirements.txt'' \<longrightarrow>
            commands (trace (install_requirements h s)) =
              commands (trace s) @
              [[obtener_python_venv h, ''-m'', ''pip'', ''install'', ''pip-tools''], compile_command h w1]
          \<and> last (trace (install_requirements h s)) = Print CannotInstall
          \<and> world (install_requirements h s) = w2)"
proof -
  from assms(2) have a: "popen h (world s) (obtener_pip_venv h @ [''install'', ''pip-tools'']) 120 = (p1, w1)"
    by (simp add: obtener_pip_venv_def)
  obtain p3 w3 where c:
    "popen h w2 (obtener_pip_venv h @ [''install'', ''-r'', ''requirements.txt'']) 120 = (p3, w3)"
    by (cases "popen h w2 (obtener_pip_venv h @ [''install'', ''-r'', ''requirements.txt'']) 120")
  have "last (trace (install_requirements h s)) = Print CannotInstall"
    if "\<not> os_path_exists h w2 ''requirements.txt''"
    using that assms(1,3,5) a assms(4)
    by (simp add: install_requirements_def verify_and_install_pip_compile_def Let_def split_beta
          ejecutar_simps print_line_def)
  then show ?thesis
    using assms(1,3,5)
    by (simp add: install_commands [OF a assms(4)] install_world [OF a assms(4) c]
          obtener_pip_venv_def)
qed

theorem lock_file_gate_witness:
  "os_path_isdir (posix_host quiet_tools) (world (fresh with_venv)) VENV_DIR
   \<and> popen (posix_host quiet_tools) (world (fresh with_venv))
       [obtener_python_venv (posix_host quiet_tools), ''-m'', ''pip'', ''install'', ''pip-tools''] 120 =
       (Exit 0 [] [], with_venv)
   \<and> succeeded (Exit 0 [] [])
   \<and> popen (posix_host quiet_tools) with_venv
       (compile_command (posix_host quiet_tools) with_venv) 120 = (Exit 0 [] [], with_venv)
   \<and> \<not> os_path_exists (posix_host quiet_tools) with_venv ''requirements.txt''
   \<and> last (trace (install_requirements (posix_host quiet_tools) (fresh with_venv))) =
       Print CannotInstall"
proof -
  have a: "os_path_isdir (posix_host quiet_tools) (world (fresh with_venv)) VENV_DIR"
    by code_simp
  have b: "popen (posix_host quiet_tools) (world (fresh with_venv))
       [obtener_python_venv (posix_host quiet_tools), ''-m'', ''pip'', ''install'', ''pip-tools''] 120 =
       (Exit 0 [] [], with_venv)"
    by code_simp
  have c: "succeeded (Exit 0 [] [])"
    by (simp add: succeeded_def)
  have d: "popen (posix_host quiet_tools) with_venv
       (compile_command (posix_host quiet_tools) with_venv) 120 = (Exit 0 [] [], with_venv)"
    by code_simp
  have e: "\<not> os_path_exists (posix_host quiet_tools) with_venv ''requirements.txt''"
    by code_simp
  from lock_file_gate [OF a b c d c] a b c d e
  show ?thesis by blast
qed

text \<open>
  C8. The path of the compiler executable is the directory of the environment's
  interpreter (\<^verbatim>\<open>.venv/bin\<close>, or \<^verbatim>\<open>.venv\Scripts\<close> on win32) joined with
  \<^verbatim>\<open>pip-compile\<close> plus \<^verbatim>\<open>.exe\<close> on win32 and nothing elsewhere. Once pip-tools
  is installed, the second command of the flow is that executable applied to
  \<^verbatim>\<open>requirements.in\<close> when the path exists in the world at that moment, and
  otherwise the environment's interpreter running \<^verbatim>\<open>-m piptools compile\<close> on the
  same file; the fallback warning is printed by the flow exactly in the second case.
\<close>

theorem compile_command_choice:
  assumes "os_path_isdir h (world s) VENV_DIR"
    and "popen h (world s) [obtener_python_venv h, ''-m'', ''pip'', ''install'', ''pip-tools''] 120 = (p1, w1)"
    and "succeeded p1"
  shows "pip_compile_venv h =
           os_path_join h (os_path_dirname h (obtener_python_venv h))
             [''pip-compile'' @ (if sys_platform h = ''win32'' then ''.exe'' else [])]
       \<and> os_path_dirname h (obtener_python_venv h) =
           os_path_join h VENV_DIR [if sys_platform h = ''win32'' then ''Scripts'' else ''bin'']
       \<and> (\<exists>rest. commands (trace (install_requirements h s)) =
             commands (trace s) @
             [obtener_python_venv h, ''-m'', ''pip'', ''install'', ''pip-tools''] #
             (if os_path_exists h w1 (pip_compile_venv h)
              then [pip_compile_venv h, ''requirements.in'']
              else [obtener_python_venv h, ''-m'', ''piptools'', ''compile'', ''requirements.in'']) #
             rest)
       \<and> (Print FallbackWarning \<in> set (drop (length (trace s)) (trace (install_requirements h s)))) =
           (\<not> os_path_exists h w1 (pip_compile_venv h))"
proof -
  from assms(2) have a: "popen h (world s) (obtener_pip_venv h @ [''install'', ''pip-tools'']) 120 = (p1, w1)"
    by (simp add: obtener_pip_venv_def)
  obtain p2 w2 where b: "popen h w1 (compile_command h w1) 120 = (p2, w2)"
    by (cases "popen h w1 (compile_command h w1) 120")
  have "\<exists>rest. commands (trace (install_requirements h s)) =
             commands (trace s) @
             [obtener_python_venv h, ''-m'', ''pip'', ''install'', ''pip-tools''] #
             (if os_path_exists h w1 (pip_compile_venv h)
              then [pip_compile_venv h, ''requirements.in'']
              else [obtener_python_venv h, ''-m'', ''piptools'', ''compile'', ''requirements.in'']) #
             rest"
    using assms(1,3)
    by (simp add: install_commands [OF a b] obtener_pip_venv_def compile_command_def)
  with pip_compile_venv_join [of h] dirname_python_venv [of h]
    fallback_warning_printed [OF assms(1) a assms(3)]
  show ?thesis by blast
qed

theorem compile_command_choice_witness:
  "os_path_isdir (posix_host well_behaved) (world (fresh with_venv)) VENV_DIR
   \<and> popen (posix_host well_behaved) (world (fresh with_venv))
       [obtener_python_venv (posix_host well_behaved), ''-m'', ''pip'', ''install'', ''pip-tools''] 120 =
       (Exit 0 [] [], with_venv)
   \<and> succeeded (Exit 0 [] [])
   \<and> \<not> os_path_exists (posix_host well_behaved) with_venv
         (pip_compile_venv (posix_host well_behaved))
   \<and> Print FallbackWarning \<in>
       set (drop (length (trace (fresh with_venv)))
         (trace (install_requirements (posix_host well_behaved) (fresh with_venv))))"
proof -
  have a: "os_path_isdir (posix_host well_behaved) (world (fresh with_venv)) VENV_DIR"
    by code_simp
  have b: "popen (posix_host well_behaved) (world (fresh with_venv))
       [obtener_python_venv (posix_host well_behaved), ''-m'', ''pip'', ''install'', ''pip-tools''] 120 =
       (Exit 0 [] [], with_venv)"
    by code_simp
  have c: "succeeded (Exit 0 [] [])"
    by (simp add: succeeded_def)
  have e: "\<not> os_path_exists (posix_host well_behaved) with_venv
         (pip_compile_venv (posix_host well_behaved))"
    by code_simp
  from compile_command_choice [OF a b c] a b c e
  show ?thesis by blast
qed

text \<open>
  C10. Every command that either flow adds to the commands already run is the creation command
  \<^verbatim>\<open>[sys.executable, -m, venv, .venv]\<close>, one of the two forms of the compilation
  command, or one of the three pip commands (upgrade of pip and setuptools, installation
  of pip-tools, installation from \<^verbatim>\<open>requirements.txt\<close>), each of which is
  \<^verbatim>\<open>[venv_python, -m, pip]\<close> followed by its arguments. Apart from the creation
  command, the executable of every command lies under the environment directory.
\<close>

theorem pip_through_venv_interpreter:
  assumes "c \<in> set (drop (length (commands (trace s)))
                      (commands (trace (snd (create_virtual_environment h s)))))
             \<union> set (drop (length (commands (trace s)))
                      (commands (trace (install_requirements h s))))"
  shows "(c = [sys_executable h, ''-m'', ''venv'', VENV_DIR]
          \<or> c = [pip_compile_venv h, ''requirements.in'']
          \<or> c = [obtener_python_venv h, ''-m'', ''piptools'', ''compile'', ''requirements.in'']
          \<or> c = obtener_pip_venv h @ [''install'', ''--upgrade'', ''pip'', ''setuptools'']
          \<or> c = obtener_pip_venv h @ [''install'', ''pip-tools'']
          \<or> c = obtener_pip_venv h @ [''install'', ''-r'', ''requirements.txt''])
       \<and> obtener_pip_venv h = [obtener_python_venv h, ''-m'', ''pip'']
       \<and> (c \<noteq> [sys_executable h, ''-m'', ''venv'', VENV_DIR] \<longrightarrow>
            take (length VENV_DIR) (hd c) = VENV_DIR)"
proof -
  obtain p w1 where cr: "popen h (world s) [sys_executable h, ''-m'', ''venv'', VENV_DIR] 120 = (p, w1)"
    by (cases "popen h (world s) [sys_executable h, ''-m'', ''venv'', VENV_DIR] 120")
  obtain p1 w1' where a: "popen h (world s) (obtener_pip_venv h @ [''install'', ''pip-tools'']) 120 = (p1, w1')"
    by (cases "popen h (world s) (obtener_pip_venv h @ [''install'', ''pip-tools'']) 120")
  obtain p2 w2 where b: "popen h w1' (compile_command h w1') 120 = (p2, w2)"
    by (cases "popen h w1' (compile_command h w1') 120")
  have forms: "c = [sys_executable h, ''-m'', ''venv'', VENV_DIR]
          \<or> c = [pip_compile_venv h, ''requirements.in'']
          \<or> c = [obtener_python_venv h, ''-m'', ''piptools'', ''compile'', ''requirements.in'']
          \<or> c = obtener_pip_venv h @ [''install'', ''--upgrade'', ''pip'', ''setuptools'']
          \<or> c = obtener_pip_venv h @ [''install'', ''pip-tools'']
          \<or> c = obtener_pip_venv h @ [''install'', ''-r'', ''requirements.txt'']"
    using assms
    unfolding create_commands [OF cr] install_commands [OF a b]
    by (auto simp add: compile_command_def split: if_splits)
  then have "c \<noteq> [sys_executable h, ''-m'', ''venv'', VENV_DIR] \<longrightarrow>
            take (length VENV_DIR) (hd c) = VENV_DIR"
    using python_venv_inside [of h] pip_compile_venv_inside [of h]
    by (auto simp add: obtener_pip_venv_def)
  with forms show ?thesis
    by (simp add: obtener_pip_venv_def)
qed

theorem pip_through_venv_interpreter_witness:
  "[''.venv/bin/python'', ''-m'', ''pip'', ''install'', ''pip-tools''] \<in>
     set (drop (length (commands (trace (fresh with_venv))))
       (commands (trace (snd (create_virtual_environment (posix_host well_behaved) (fresh with_venv))))))
     \<union> set (drop (length (commands (trace (fresh with_venv))))
       (commands (trace (install_requirements (posix_host well_behaved) (fresh with_venv)))))
   \<and> take (length VENV_DIR) (hd [''.venv/bin/python'', ''-m'', ''pip'', ''install'', ''pip-tools'']) =
       VENV_DIR"
proof -
  have a: "[''.venv/bin/python'', ''-m'', ''pip'', ''install'', ''pip-tools''] \<in>
     set (drop (length (commands (trace (fresh with_venv))))
       (commands (trace (snd (create_virtual_environment (posix_host well_behaved) (fresh with_venv))))))
     \<union> set (drop (length (commands (trace (fresh with_venv))))
       (commands (trace (install_requirements (posix_host well_behaved) (fresh with_venv)))))"
    by code_simp
  have c: "[''.venv/bin/python'', ''-m'', ''pip'', ''install'', ''pip-tools''] \<noteq>
       [sys_executable (posix_host well_behaved), ''-m'', ''venv'', VENV_DIR]"
    by code_simp
  from pip_through_venv_interpreter [OF a] a c
  show ?thesis by blast
qed

section \<open>The menu\<close>



lemma banner_simps [simp]:
  "world (banner s) = world s"
  "commands (trace (banner s)) = commands (trace s)"
  "printed (trace (banner s)) = printed (trace s) @
     [Rule (CHR 0x0A # replicate 50 (CHR ''='')), MenuTitle, Rule (replicate 50 (CHR ''='')),
      MenuCreate, MenuInstall, MenuExit, Rule (replicate 50 (CHR ''-''))]"
  by (simp_all add: banner_def Let_def)




end
